theory Spec2Isabelle
  imports Complex_Main "HOL-Library.Word" "HOL-Library.Log_Nat"
begin

section \<open>Data model\<close>

text \<open>
  A JavaScript string is a sequence of UTF-16 code units. Fixed texts of the program are
  written as ASCII literals and converted with \<open>js\<close>.
\<close>

type_synonym code_unit = "16 word"
type_synonym jsstring = "code_unit list"

definition js :: "string \<Rightarrow> jsstring" where
  "js s = map (\<lambda>c. of_nat (of_char c)) s"

text \<open>
  \<^verbatim>\<open>interface Source\<close> of \<^verbatim>\<open>lib/api.ts\<close>. An optional field that is absent (or
  \<^verbatim>\<open>null\<close> in the JSON body) is \<open>None\<close>. A score is a JSON number, which the program
  holds as an IEEE 754 double: \<^verbatim>\<open>JSON.parse\<close> rounds the decimal literal to the nearest
  double (\<open>JSON_number\<close> below). A score field holds that number as a rational; the
  arithmetic on scores takes the double of each operand, so it computes what the program
  computes whether the field is given as the double or as the literal it was read from.
  The sign of a zero is not kept, and a literal beyond the range of the doubles, which
  is parsed as \<^verbatim>\<open>Infinity\<close>, is not modelled.
\<close>

record source =
  rule_id :: int
  payer_name :: jsstring
  rule_type :: jsstring
  title :: "jsstring option"
  content_excerpt :: "jsstring option"
  effective_date :: "jsstring option"
  source_url :: "jsstring option"
  similarity_score :: "rat option"
  combined_score :: "rat option"

section \<open>Arithmetic of doubles\<close>

text \<open>
  A double has a significand of 53 bits: in the binade \<open>[2^e, 2^(e+1))\<close> the doubles are
  the multiples of \<open>2^(e-52)\<close>, and below \<open>2^(-1022)\<close> (the subnormal numbers) the
  multiples of \<open>2^(-1074)\<close>. \<open>exponent x\<close> is the \<open>e\<close> of a positive \<open>x\<close>.
\<close>

definition pow2 :: "int \<Rightarrow> rat" where
  "pow2 e = (if 0 \<le> e then 2 ^ nat e else 1 / 2 ^ nat (- e))"

definition exponent :: "rat \<Rightarrow> int" where
  "exponent x = (if 1 \<le> x then bitlen \<lfloor>x\<rfloor> - 1 else - bitlen (\<lceil>1 / x\<rceil> - 1))"

text \<open>The nearest integer, a tie going to the even one.\<close>

definition round_even :: "rat \<Rightarrow> int" where
  "round_even y =
     (let n = \<lfloor>y\<rfloor>; r = y - of_int n
      in if r < 1 / 2 then n else if 1 / 2 < r then n + 1 else if even n then n else n + 1)"

text \<open>
  The double nearest to a rational, a tie going to the double with the even
  significand: the rounding of every arithmetic operation on doubles and of the reading
  of a literal. A result beyond the largest double, which the program holds as
  \<^verbatim>\<open>Infinity\<close>, is kept finite here; it arises for a score above \<open>10^306\<close> only.
\<close>

definition to_double :: "rat \<Rightarrow> rat" where
  "to_double x =
     (if x = 0 then 0
      else let ulp = pow2 (max (exponent \<bar>x\<bar>) (- 1022) - 52)
           in of_int (round_even (x / ulp)) * ulp)"

text \<open>\<^verbatim>\<open>x * y\<close> on numbers: the exact product of the two doubles, rounded.\<close>

definition double_times :: "rat \<Rightarrow> rat \<Rightarrow> rat" where
  "double_times x y = to_double (to_double x * to_double y)"


section \<open>Score shown for a source\<close>

text \<open>
  Both front ends compute
  \<^verbatim>\<open>(source.combined_score || source.similarity_score || 0) * 100\<close>.
  The operator \<^verbatim>\<open>||\<close> yields its left operand when that is truthy and its right
  operand otherwise; a number is truthy unless it is zero (or NaN, which JSON cannot
  carry), \<^verbatim>\<open>undefined\<close> is falsy.
\<close>

fun truthy :: "rat option \<Rightarrow> bool" where
  "truthy None = False"
| "truthy (Some v) = (v \<noteq> 0)"

definition or_else :: "rat option \<Rightarrow> rat option \<Rightarrow> rat option" where
  "or_else a b = (if truthy a then a else b)"

fun or_number :: "rat option \<Rightarrow> rat \<Rightarrow> rat" where
  "or_number None d = d"
| "or_number (Some v) d = (if v \<noteq> 0 then v else d)"

definition displayScore :: "source \<Rightarrow> rat" where
  "displayScore s = or_number (or_else (combined_score s) (similarity_score s)) 0"

text \<open>
  \<^verbatim>\<open>Math.round(x)\<close> is the integer closest to \<open>x\<close>, a tie going towards
  \<open>+\<infinity>\<close>. \<^verbatim>\<open>x.toFixed(0)\<close> prints the integer \<open>n\<close> closest to \<open>x\<close>, the
  larger \<open>n\<close> on a tie, after taking the sign off a negative \<open>x\<close>: a tie of a negative
  number goes away from zero. (The sign of a printed \<^verbatim>\<open>-0\<close> is not modelled.)
\<close>

definition Math_round :: "rat \<Rightarrow> int" where
  "Math_round x = \<lfloor>x + 1 / 2\<rfloor>"

definition toFixed0 :: "rat \<Rightarrow> int" where
  "toFixed0 x = (if x < 0 then - \<lfloor>- x + 1 / 2\<rfloor> else \<lfloor>x + 1 / 2\<rfloor>)"

subsection \<open>React front end: \<^verbatim>\<open>SourceCard.tsx\<close>, \<^verbatim>\<open>MessageBubble.tsx\<close>\<close>

definition matchScore :: "source \<Rightarrow> int" where
  "matchScore s = Math_round (double_times (displayScore s) 100)"

text \<open>
  The badge of a card takes its colour classes from \<open>matchScore\<close>:
  \<^verbatim>\<open>matchScore >= 80 ? green : matchScore >= 60 ? yellow : gray\<close>.
\<close>

datatype badge = Green | Yellow | Gray

definition badgeClass :: "int \<Rightarrow> badge" where
  "badgeClass m = (if m \<ge> 80 then Green else if m \<ge> 60 then Yellow else Gray)"

record source_card =
  card_source :: source
  card_index :: nat
  card_label :: nat
  card_match :: int
  card_badge :: badge

definition SourceCard :: "source \<Rightarrow> nat \<Rightarrow> source_card" where
  "SourceCard s i =
     \<lparr>card_source = s, card_index = i, card_label = i + 1,
      card_match = matchScore s, card_badge = badgeClass (matchScore s)\<rparr>"

text \<open>
  \<^verbatim>\<open>sources && sources.length > 0 && sources.map((source, index) => <SourceCard .../>)\<close>:
  one card per source, in the order of the array.
\<close>

fun map_index :: "('a \<Rightarrow> nat \<Rightarrow> 'b) \<Rightarrow> nat \<Rightarrow> 'a list \<Rightarrow> 'b list" where
  "map_index f i [] = []"
| "map_index f i (x # xs) = f x i # map_index f (Suc i) xs"

definition MessageBubble_sources :: "source list option \<Rightarrow> source_card list" where
  "MessageBubble_sources sources =
     (case sources of
        None \<Rightarrow> []
      | Some ss \<Rightarrow> if length ss > 0 then map_index SourceCard 0 ss else [])"

subsection \<open>Plain front end: the source list of \<^verbatim>\<open>addMessage\<close> in \<^verbatim>\<open>app.js\<close>\<close>

record source_item =
  item_source :: source
  item_label :: nat
  item_score :: int

definition sourceItem :: "source \<Rightarrow> nat \<Rightarrow> source_item" where
  "sourceItem s i =
     \<lparr>item_source = s, item_label = i + 1,
      item_score = toFixed0 (double_times (displayScore s) 100)\<rparr>"

definition messageSources :: "source list option \<Rightarrow> source_item list" where
  "messageSources sources =
     (case sources of
        None \<Rightarrow> []
      | Some ss \<Rightarrow> if length ss > 0 then map_index sourceItem 0 ss else [])"

text \<open>Sources used in the examples below: only the two score fields vary.\<close>

definition scored :: "rat option \<Rightarrow> rat option \<Rightarrow> source" where
  "scored sim comb =
     \<lparr>rule_id = 1, payer_name = js ''Aetna'', rule_type = js ''timely_filing'',
      title = None, content_excerpt = None, effective_date = None, source_url = None,
      similarity_score = sim, combined_score = comb\<rparr>"

section \<open>Input text\<close>

text \<open>
  \<^verbatim>\<open>String.prototype.trim\<close> removes the leading and trailing white space and line
  terminators of ECMAScript: TAB, LF, VT, FF, CR, SPACE, NO-BREAK SPACE, the other space
  separators of Unicode, LINE SEPARATOR, PARAGRAPH SEPARATOR and the byte order mark.
\<close>

definition isWhiteSpace :: "code_unit \<Rightarrow> bool" where
  "isWhiteSpace c =
     (c \<in> {0x09, 0x0A, 0x0B, 0x0C, 0x0D, 0x20, 0xA0, 0x1680, 0x2028, 0x2029, 0x202F,
            0x205F, 0x3000, 0xFEFF}
      \<or> (0x2000 \<le> c \<and> c \<le> 0x200A))"

definition trim :: "jsstring \<Rightarrow> jsstring" where
  "trim s = rev (dropWhile isWhiteSpace (rev (dropWhile isWhiteSpace s)))"

text \<open>\<^verbatim>\<open>x || null\<close> and \<^verbatim>\<open>x || undefined\<close> on a string: the empty string is falsy.\<close>

definition or_absent :: "jsstring \<Rightarrow> jsstring option" where
  "or_absent x = (if x \<noteq> [] then Some x else None)"

section \<open>Requests and responses\<close>

text \<open>The body of \<^verbatim>\<open>POST /chat/query\<close> (\<^verbatim>\<open>ChatQueryRequest\<close>).\<close>

record chat_request =
  req_query :: jsstring
  req_session_id :: "jsstring option"
  req_payer_name :: "jsstring option"
  req_rule_type :: "jsstring option"
  req_include_sources :: bool

text \<open>
  The parsed body of the answer (\<^verbatim>\<open>ChatQueryResponse\<close>). Nothing checks its shape, so
  every field may be missing: a missing field reads as \<^verbatim>\<open>undefined\<close>, here \<open>None\<close>.
\<close>

record chat_data =
  response :: "jsstring option"
  sources :: "source list option"
  session_id :: "jsstring option"
  query_id :: "int option"
  response_time_ms :: "int option"

text \<open>
  What \<^verbatim>\<open>await fetch(...)\<close> followed by \<^verbatim>\<open>await response.json()\<close> can yield.
  \<^verbatim>\<open>fetch\<close> rejects only when no response arrives (network failure, timeout); it
  resolves for every HTTP status. \<^verbatim>\<open>response.json()\<close> rejects when the body is not
  JSON; the JSON value \<^verbatim>\<open>null\<close> is kept apart because reading a property of it throws.
\<close>

datatype 'a body = NotJson | JsonNull | JsonValue 'a

datatype 'a fetch_outcome = NetworkError | HttpResponse nat "'a body"

text \<open>The apology of both front ends.\<close>

definition apology :: jsstring where
  "apology = js ''Sorry, I encountered an error. Please try again.''"

section \<open>Plain front end: \<^verbatim>\<open>app.js\<close>\<close>

datatype sender = User | Bot

text \<open>
  The children of \<^verbatim>\<open>#chatMessages\<close>. A message keeps the value handed to
  \<^verbatim>\<open>addMessage\<close> as its content (\<open>None\<close> for \<^verbatim>\<open>undefined\<close>) and the source items
  rendered under it.
\<close>

datatype element =
    WelcomeMessage
  | Message "jsstring option" sender "source_item list"
  | TypingIndicator

datatype log_entry =
    ErrorLoadingStats
  | ErrorLoadingAlerts
  | ErrorSendingMessage
  | ChatError

record stats =
  total_payers :: "int option"
  total_rules :: "int option"
  unread_alerts :: "int option"

datatype stats_html = StatsPlaceholder | StatCards "int option" "int option" "int option"

record alert =
  alert_title :: jsstring
  alert_message :: jsstring
  alert_severity :: jsstring

text \<open>
  The JSON value of the alerts answer: an array of alerts, or a value of another kind.
  Of such a value the code sees only whether its \<^verbatim>\<open>length\<close> is the number 0, as it is
  for the empty string.
\<close>

datatype alerts_json = AlertArray "alert list" | NotAnArray bool

datatype alerts_html =
    AlertsPlaceholder
  | NoNewAlerts
  | AlertItems "alert list"
  | ErrorLoadingAlertsText

text \<open>
  The state of the page: the global \<^verbatim>\<open>sessionId\<close>, the form controls, the widgets,
  and, as the observable effects, the queries sent (\<open>fetched\<close>), the calls of
  \<^verbatim>\<open>sendMessage\<close> suspended at \<^verbatim>\<open>await fetch\<close> (\<open>awaiting\<close>, each with its
  request), and the console.
\<close>

record app_state =
  sessionId :: "jsstring option"
  chatInput :: jsstring
  payerFilter :: jsstring
  ruleTypeFilter :: jsstring
  chatMessages :: "element list"
  statsGrid :: stats_html
  alertsList :: alerts_html
  fetched :: "chat_request list"
  awaiting :: "chat_request list"
  console :: "log_entry list"

definition addMessage :: "jsstring option \<Rightarrow> sender \<Rightarrow> source list option \<Rightarrow> app_state \<Rightarrow> app_state" where
  "addMessage content type srcs st =
     st\<lparr>chatMessages :=
          remove1 WelcomeMessage (chatMessages st) @ [Message content type (messageSources srcs)]\<rparr>"

definition showTypingIndicator :: "app_state \<Rightarrow> app_state" where
  "showTypingIndicator st = st\<lparr>chatMessages := chatMessages st @ [TypingIndicator]\<rparr>"

definition removeTypingIndicator :: "app_state \<Rightarrow> app_state" where
  "removeTypingIndicator st = st\<lparr>chatMessages := remove1 TypingIndicator (chatMessages st)\<rparr>"

text \<open>
  \<^verbatim>\<open>sendMessage\<close> up to its \<^verbatim>\<open>await fetch\<close>: the query is the trimmed input; an empty
  query returns at once; otherwise the input is cleared, the user message and the typing
  indicator are appended and the request is sent.
\<close>

definition sendMessage :: "app_state \<Rightarrow> app_state" where
  "sendMessage st =
     (let query = trim (chatInput st) in
      if query = [] then st
      else
        let request =
              \<lparr>req_query = query, req_session_id = sessionId st,
               req_payer_name = or_absent (payerFilter st),
               req_rule_type = or_absent (ruleTypeFilter st),
               req_include_sources = True\<rparr>;
            st1 = st\<lparr>chatInput := []\<rparr>;
            st2 = addMessage (Some query) User None st1;
            st3 = showTypingIndicator st2
        in st3\<lparr>fetched := fetched st3 @ [request], awaiting := awaiting st3 @ [request]\<rparr>)"

text \<open>The \<^verbatim>\<open>catch\<close> block of \<^verbatim>\<open>sendMessage\<close>.\<close>

definition sendMessage_catch :: "app_state \<Rightarrow> app_state" where
  "sendMessage_catch st =
     addMessage (Some apology) Bot None
       (removeTypingIndicator (st\<lparr>console := console st @ [ErrorSendingMessage]\<rparr>))"

text \<open>
  The rest of \<^verbatim>\<open>sendMessage\<close>, run when the awaited answer arrives. The status of the
  answer is never looked at. With the body \<^verbatim>\<open>null\<close> the typing indicator is removed
  before \<^verbatim>\<open>data.response\<close> throws, and the \<^verbatim>\<open>catch\<close> block runs after that.
\<close>

fun sendMessage_resumed :: "chat_data fetch_outcome \<Rightarrow> app_state \<Rightarrow> app_state" where
  "sendMessage_resumed NetworkError st = sendMessage_catch st"
| "sendMessage_resumed (HttpResponse status NotJson) st = sendMessage_catch st"
| "sendMessage_resumed (HttpResponse status JsonNull) st =
     sendMessage_catch (removeTypingIndicator st)"
| "sendMessage_resumed (HttpResponse status (JsonValue data)) st =
     (let st1 = removeTypingIndicator st;
          st2 = addMessage (response data) Bot (sources data) st1
      in case session_id data of
           None \<Rightarrow> st2
         | Some sid \<Rightarrow> if sid \<noteq> [] then st2\<lparr>sessionId := Some sid\<rparr> else st2)"

text \<open>
  What can happen on the page, one event at a time (the page is single-threaded): the
  user edits the input, the user sends (button or Enter), and the answer to the \<open>k\<close>-th
  suspended call arrives.
\<close>

datatype app_event =
    Edit jsstring
  | Send
  | Answer nat "chat_data fetch_outcome"

fun app_step :: "app_event \<Rightarrow> app_state \<Rightarrow> app_state" where
  "app_step (Edit text) st = st\<lparr>chatInput := text\<rparr>"
| "app_step Send st = sendMessage st"
| "app_step (Answer k outcome) st =
     (if k < length (awaiting st)
      then sendMessage_resumed outcome
             (st\<lparr>awaiting := take k (awaiting st) @ drop (Suc k) (awaiting st)\<rparr>)
      else st)"

fun app_run :: "app_event list \<Rightarrow> app_state \<Rightarrow> app_state" where
  "app_run [] st = st"
| "app_run (e # es) st = app_run es (app_step e st)"

text \<open>The page as loaded, before \<^verbatim>\<open>initializeApp\<close> has set a session id.\<close>

definition loaded_page :: app_state where
  "loaded_page =
     \<lparr>sessionId = None, chatInput = [], payerFilter = [], ruleTypeFilter = [],
      chatMessages = [WelcomeMessage], statsGrid = StatsPlaceholder,
      alertsList = AlertsPlaceholder, fetched = [], awaiting = [], console = []\<rparr>"

subsection \<open>Dashboard: \<^verbatim>\<open>loadStats\<close>, \<^verbatim>\<open>loadAlerts\<close> and the 30-second timer\<close>

fun loadStats :: "stats fetch_outcome \<Rightarrow> app_state \<Rightarrow> app_state" where
  "loadStats (HttpResponse status (JsonValue data)) st =
     st\<lparr>statsGrid := StatCards (total_payers data) (total_rules data) (unread_alerts data)\<rparr>"
| "loadStats outcome st = st\<lparr>console := console st @ [ErrorLoadingStats]\<rparr>"

definition loadAlerts_catch :: "app_state \<Rightarrow> app_state" where
  "loadAlerts_catch st =
     st\<lparr>console := console st @ [ErrorLoadingAlerts], alertsList := ErrorLoadingAlertsText\<rparr>"

text \<open>
  \<^verbatim>\<open>loadAlerts\<close>: a value whose length is 0 shows \<^verbatim>\<open>No new alerts\<close>; otherwise
  \<^verbatim>\<open>alerts.map\<close> renders an array and throws on any other value.
\<close>

fun loadAlerts :: "alerts_json fetch_outcome \<Rightarrow> app_state \<Rightarrow> app_state" where
  "loadAlerts (HttpResponse status (JsonValue (AlertArray alerts))) st =
     (if length alerts = 0 then st\<lparr>alertsList := NoNewAlerts\<rparr>
      else st\<lparr>alertsList := AlertItems alerts\<rparr>)"
| "loadAlerts (HttpResponse status (JsonValue (NotAnArray length_is_0))) st =
     (if length_is_0 then st\<lparr>alertsList := NoNewAlerts\<rparr> else loadAlerts_catch st)"
| "loadAlerts outcome st = loadAlerts_catch st"

text \<open>
  One tick of the timer calls \<^verbatim>\<open>loadStats()\<close> and \<^verbatim>\<open>loadAlerts()\<close> without awaiting
  them: both fetches are started, and each loader finishes when its own fetch has
  settled, in either order.
\<close>

datatype settles_first = StatsFirst | AlertsFirst

definition poll ::
  "settles_first \<Rightarrow> stats fetch_outcome \<Rightarrow> alerts_json fetch_outcome \<Rightarrow> app_state \<Rightarrow> app_state" where
  "poll first stats_outcome alerts_outcome st =
     (case first of
        StatsFirst \<Rightarrow> loadAlerts alerts_outcome (loadStats stats_outcome st)
      | AlertsFirst \<Rightarrow> loadStats stats_outcome (loadAlerts alerts_outcome st))"

text \<open>
  A fetch is rejected when its promise, or that of reading its body, rejects: no answer
  has arrived, or the body is not JSON.
\<close>

fun fetch_failed :: "'a fetch_outcome \<Rightarrow> bool" where
  "fetch_failed NetworkError = True"
| "fetch_failed (HttpResponse status NotJson) = True"
| "fetch_failed (HttpResponse status b) = False"

section \<open>React front end: \<^verbatim>\<open>InputBar.tsx\<close> and \<^verbatim>\<open>ChatInterface.tsx\<close>\<close>

text \<open>
  A \<^verbatim>\<open>Message\<close> of \<^verbatim>\<open>ChatInterface.tsx\<close>. Its id is a prefix followed by the clock
  reading and its timestamp is the clock reading; the clock is not modelled, the prefix
  is kept.
\<close>

datatype id_prefix = UserId | AssistantId | ErrorId

datatype message_type = UserMessage | AssistantMessage

record message =
  msg_id :: id_prefix
  msg_content :: "jsstring option"
  msg_type :: message_type
  msg_sources :: "source list option"

text \<open>How a promise settles: \<^verbatim>\<open>chatApi.query\<close> rejects or resolves with the data.\<close>

datatype 'a settled = Rejected | Fulfilled 'a

text \<open>
  The state of the component tree: the state of \<^verbatim>\<open>ChatInterface\<close> (\<open>messages\<close>, the
  session id, which \<^verbatim>\<open>useState\<close> fixes at the first render and for which no setter is
  kept, and the two props), the state of \<^verbatim>\<open>InputBar\<close> (\<open>input\<close>), and the mutation:
  \<open>isPending\<close> is true while the latest \<^verbatim>\<open>mutate\<close> call is not settled, \<open>in_flight\<close>
  holds the requests not settled yet and \<open>posted\<close> every request made.
\<close>

record chat_interface =
  messages :: "message list"
  chat_sessionId :: jsstring
  prop_payerFilter :: "jsstring option"
  prop_ruleTypeFilter :: "jsstring option"
  input :: jsstring
  isPending :: bool
  in_flight :: "chat_request list"
  posted :: "chat_request list"
  chat_console :: "log_entry list"

definition or_undefined :: "jsstring option \<Rightarrow> jsstring option" where
  "or_undefined x = (case x of None \<Rightarrow> None | Some v \<Rightarrow> or_absent v)"

definition mutationFn :: "jsstring \<Rightarrow> chat_interface \<Rightarrow> chat_request" where
  "mutationFn query ci =
     \<lparr>req_query = query, req_session_id = Some (chat_sessionId ci),
      req_payer_name = or_undefined (prop_payerFilter ci),
      req_rule_type = or_undefined (prop_ruleTypeFilter ci),
      req_include_sources = True\<rparr>"

definition mutate :: "jsstring \<Rightarrow> chat_interface \<Rightarrow> chat_interface" where
  "mutate query ci =
     ci\<lparr>isPending := True,
        in_flight := in_flight ci @ [mutationFn query ci],
        posted := posted ci @ [mutationFn query ci]\<rparr>"

definition handleSend :: "jsstring \<Rightarrow> chat_interface \<Rightarrow> chat_interface" where
  "handleSend text ci =
     mutate text
       (ci\<lparr>messages := messages ci @
            [\<lparr>msg_id = UserId, msg_content = Some text, msg_type = UserMessage,
              msg_sources = None\<rparr>]\<rparr>)"

text \<open>
  \<^verbatim>\<open>handleSubmit\<close> of the input bar; \<^verbatim>\<open>isLoading\<close> is \<^verbatim>\<open>chatMutation.isPending\<close> and
  \<^verbatim>\<open>disabled\<close> is \<^verbatim>\<open>false\<close>.
\<close>

definition handleSubmit :: "chat_interface \<Rightarrow> chat_interface" where
  "handleSubmit ci =
     (if trim (input ci) \<noteq> [] \<and> \<not> isPending ci \<and> \<not> False
      then (handleSend (trim (input ci)) ci)\<lparr>input := []\<rparr>
      else ci)"

definition onSuccess :: "chat_data \<Rightarrow> chat_interface \<Rightarrow> chat_interface" where
  "onSuccess data ci =
     ci\<lparr>messages := messages ci @
          [\<lparr>msg_id = AssistantId, msg_content = response data, msg_type = AssistantMessage,
            msg_sources = sources data\<rparr>]\<rparr>"

definition onError :: "chat_interface \<Rightarrow> chat_interface" where
  "onError ci =
     ci\<lparr>messages := messages ci @
          [\<lparr>msg_id = ErrorId, msg_content = Some apology, msg_type = AssistantMessage,
            msg_sources = None\<rparr>],
        chat_console := chat_console ci @ [ChatError]\<rparr>"

text \<open>
  The \<open>k\<close>-th request in flight settles: it leaves \<open>in_flight\<close>, the mutation stops
  pending if that was the latest call, and the callback runs.
\<close>

definition settle :: "nat \<Rightarrow> chat_data settled \<Rightarrow> chat_interface \<Rightarrow> chat_interface" where
  "settle k outcome ci =
     (if k < length (in_flight ci)
      then
        let ci1 = ci\<lparr>in_flight := take k (in_flight ci) @ drop (Suc k) (in_flight ci),
                     isPending := (isPending ci \<and> Suc k \<noteq> length (in_flight ci))\<rparr>
        in (case outcome of Rejected \<Rightarrow> onError ci1 | Fulfilled data \<Rightarrow> onSuccess data ci1)
      else ci)"

text \<open>
  The four example questions are buttons that call \<^verbatim>\<open>handleSend\<close> directly; they are
  rendered only while there is no message.
\<close>

definition examples :: "jsstring list" where
  "examples =
     [js ''What's Aetna's timely filing rule?'',
      js ''Tell me about prior authorization requirements'',
      js ''What are United Healthcare's appeals processes?'',
      js ''Compare timely filing rules across payers'']"

datatype chat_event =
    Change jsstring
  | Submit
  | Example nat
  | Settle nat "chat_data settled"

fun chat_step :: "chat_event \<Rightarrow> chat_interface \<Rightarrow> chat_interface" where
  "chat_step (Change text) ci = ci\<lparr>input := text\<rparr>"
| "chat_step Submit ci = handleSubmit ci"
| "chat_step (Example i) ci =
     (if length (messages ci) = 0 \<and> i < length examples then handleSend (examples ! i) ci
      else ci)"
| "chat_step (Settle k outcome) ci = settle k outcome ci"

fun chat_run :: "chat_event list \<Rightarrow> chat_interface \<Rightarrow> chat_interface" where
  "chat_run [] ci = ci"
| "chat_run (e # es) ci = chat_run es (chat_step e ci)"

definition mounted :: "jsstring \<Rightarrow> chat_interface" where
  "mounted sid =
     \<lparr>messages = [], chat_sessionId = sid, prop_payerFilter = None,
      prop_ruleTypeFilter = None, input = [], isPending = False, in_flight = [],
      posted = [], chat_console = []\<rparr>"

text \<open>
  The turns of the React front end alternate, a user message first, and at most one
  request is in flight: the invariant of \<open>chat_step\<close>.
\<close>

fun alternating :: "message_type list \<Rightarrow> bool" where
  "alternating [] = True"
| "alternating [t] = (t = UserMessage)"
| "alternating (u # a # ts) = (u = UserMessage \<and> a = AssistantMessage \<and> alternating ts)"

definition single_flight :: "chat_interface \<Rightarrow> bool" where
  "single_flight ci =
     (length (in_flight ci) \<le> 1
      \<and> isPending ci = (in_flight ci \<noteq> [])
      \<and> alternating (map msg_type (messages ci))
      \<and> (in_flight ci \<noteq> []) = odd (length (messages ci)))"

section \<open>Example answers\<close>

text \<open>
  A well-formed answer with no sources, and the body of an error answer such as
  \<^verbatim>\<open>{"detail": "Internal Server Error"}\<close>, which has none of the expected fields.
\<close>

definition answer :: "jsstring \<Rightarrow> jsstring option \<Rightarrow> chat_data" where
  "answer text sid =
     \<lparr>response = Some text, sources = Some [], session_id = sid, query_id = Some 1,
      response_time_ms = Some 120\<rparr>"

definition error_body :: chat_data where
  "error_body =
     \<lparr>response = None, sources = None, session_id = None, query_id = None,
      response_time_ms = None\<rparr>"

text \<open>
  The order the specification asks for, in its words: sorted by non-increasing display
  score.
\<close>

definition non_increasing_score :: "source list \<Rightarrow> bool" where
  "non_increasing_score ss = sorted_wrt (\<lambda>a b. displayScore b \<le> displayScore a) ss"

section \<open>Properties of the score\<close>

lemma map_index_length: "length (map_index f i xs) = length xs"
  by (induction xs arbitrary: i) simp_all

lemma map_index_nth:
  "k < length xs \<Longrightarrow> map_index f i xs ! k = f (xs ! k) (i + k)"
proof (induction xs arbitrary: i k)
  case Nil
  then show ?case by simp
next
  case (Cons x xs)
  show ?case
  proof (cases k)
    case 0
    then show ?thesis by simp
  next
    case (Suc j)
    with Cons.prems have "j < length xs" by simp
    from Cons.IH [OF this, of "Suc i"] Suc show ?thesis by simp
  qed
qed

lemma map_index_sources:
  "map card_source (map_index SourceCard i ss) = ss"
  by (induction ss arbitrary: i) (simp_all add: SourceCard_def)

lemma map_index_items:
  "map item_source (map_index sourceItem i ss) = ss"
  by (induction ss arbitrary: i) (simp_all add: sourceItem_def)

lemma map_index_labels:
  "map card_label (map_index SourceCard i ss) = [Suc i ..< Suc i + length ss]"
proof (induction ss arbitrary: i)
  case Nil
  then show ?case by simp
next
  case (Cons s ss)
  have "[Suc i ..< Suc i + length (s # ss)] = Suc i # [Suc (Suc i) ..< Suc (Suc i) + length ss]"
    by (simp add: upt_rec)
  with Cons.IH [of "Suc i"] show ?case
    by (simp add: SourceCard_def)
qed

lemma map_index_item_labels:
  "map item_label (map_index sourceItem i ss) = [Suc i ..< Suc i + length ss]"
proof (induction ss arbitrary: i)
  case Nil
  then show ?case by simp
next
  case (Cons s ss)
  have "[Suc i ..< Suc i + length (s # ss)] = Suc i # [Suc (Suc i) ..< Suc (Suc i) + length ss]"
    by (simp add: upt_rec)
  with Cons.IH [of "Suc i"] show ?case
    by (simp add: sourceItem_def)
qed

lemma displayScore_cases:
  "displayScore s =
     (case combined_score s of
        Some c \<Rightarrow> if c \<noteq> 0 then c
                  else (case similarity_score s of Some m \<Rightarrow> m | None \<Rightarrow> 0)
      | None \<Rightarrow> (case similarity_score s of Some m \<Rightarrow> m | None \<Rightarrow> 0))"
  by (cases "combined_score s"; cases "similarity_score s")
     (simp_all add: displayScore_def or_else_def)


lemma Math_round_mono: "x \<le> y \<Longrightarrow> Math_round x \<le> Math_round y"
  unfolding Math_round_def by (rule floor_mono) simp

lemma Math_round_of_int: "Math_round (of_int n) = n"
  unfolding Math_round_def by (simp add: floor_eq_iff)

lemma toFixed0_nonneg: "0 \<le> x \<Longrightarrow> toFixed0 x = Math_round x"
  by (simp add: toFixed0_def Math_round_def)




subsection \<open>Rounding to a double\<close>

lemma round_even_le: "y \<le> of_int N \<Longrightarrow> round_even y \<le> N"
proof -
  assume y: "y \<le> of_int N"
  then have fl: "\<lfloor>y\<rfloor> \<le> N" by (simp add: floor_le_iff)
  show ?thesis
  proof (cases "\<lfloor>y\<rfloor> = N")
    case True
    with y have "y - of_int \<lfloor>y\<rfloor> \<le> 0" by simp
    then have "y - of_int \<lfloor>y\<rfloor> < 1 / 2" by linarith
    with True show ?thesis by (simp add: round_even_def Let_def)
  next
    case False
    with fl have "\<lfloor>y\<rfloor> + 1 \<le> N" by simp
    then show ?thesis by (simp add: round_even_def Let_def)
  qed
qed

lemma round_even_nonneg: "0 \<le> y \<Longrightarrow> 0 \<le> round_even y"
  by (simp add: round_even_def Let_def)

lemma exponent_le:
  assumes "0 < x" and "x \<le> 100"
  shows "exponent x \<le> 6"
proof (cases "1 \<le> x")
  case True
  from assms have "\<lfloor>x\<rfloor> \<le> 100" by (simp add: floor_le_iff)
  then have "\<lfloor>x\<rfloor> < 2 ^ nat 7" by simp
  then have "bitlen \<lfloor>x\<rfloor> \<le> 7" by (simp only: bitlen_le_iff_power) simp
  with True show ?thesis by (simp add: exponent_def)
next
  case False
  have "0 \<le> bitlen (\<lceil>1 / x\<rceil> - 1)" by (rule bitlen_nonneg)
  with False show ?thesis by (simp add: exponent_def)
qed

text \<open>
  Rounding to a double does not cross an integer up to 100, which is a double itself.
\<close>

lemma to_double_range:
  assumes "0 \<le> x" and "x \<le> of_int N" and "N \<le> 100"
  shows "0 \<le> to_double x \<and> to_double x \<le> of_int N"
proof (cases "x = 0")
  case True
  with assms show ?thesis by (simp add: to_double_def)
next
  case False
  with assms have pos: "0 < x" by simp
  from assms have x100: "x \<le> 100"
  proof -
    from assms(3) have "(of_int N :: rat) \<le> of_int 100" by (simp only: of_int_le_iff)
    with assms(2) show ?thesis by simp
  qed
  define k where "k = max (exponent \<bar>x\<bar>) (- 1022) - 52"
  define m where "m = nat (- k)"
  from pos x100 exponent_le [of x] have "k \<le> - 46" by (simp add: k_def)
  then have ulp: "pow2 k = 1 / 2 ^ m" by (simp add: pow2_def m_def)
  have val: "to_double x = of_int (round_even (x * 2 ^ m)) / 2 ^ m"
    using False by (simp add: to_double_def Let_def k_def [symmetric] ulp)
  have "x * 2 ^ m \<le> of_int N * 2 ^ m" using assms by simp
  also have "\<dots> = of_int (N * 2 ^ m)" by simp
  finally have "round_even (x * 2 ^ m) \<le> N * 2 ^ m" by (rule round_even_le)
  then have "(of_int (round_even (x * 2 ^ m)) :: rat) \<le> of_int (N * 2 ^ m)"
    by (simp only: of_int_le_iff)
  then have up: "of_int (round_even (x * 2 ^ m)) / 2 ^ m \<le> (of_int N :: rat)"
    by (simp add: divide_le_eq)
  from assms have "0 \<le> x * 2 ^ m" by simp
  then have "0 \<le> round_even (x * 2 ^ m)" by (rule round_even_nonneg)
  then have "(0 :: rat) \<le> of_int (round_even (x * 2 ^ m)) / 2 ^ m" by simp
  with up val show ?thesis by simp
qed

lemma to_double_100: "to_double 100 = 100"
  by code_simp

lemma double_times_100_range:
  assumes "0 \<le> x" and "x \<le> 1"
  shows "0 \<le> double_times x 100 \<and> double_times x 100 \<le> 100"
proof -
  from assms to_double_range [of x 1] have "0 \<le> to_double x \<and> to_double x \<le> 1"
    by simp
  then have "0 \<le> to_double x * 100" and "to_double x * 100 \<le> of_int 100"
    by simp_all
  from to_double_range [OF this] show ?thesis
    by (simp add: double_times_def to_double_100)
qed


text \<open>The percentages of the examples.\<close>

lemma percent_70: "Math_round (double_times (7 / 10) 100) = 70"
  and percent_95: "Math_round (double_times (19 / 20) 100) = 95"
  and percent_50: "Math_round (double_times (1 / 2) 100) = 50"
  and percent_150: "Math_round (double_times (3 / 2) 100) = 150"
  and percent_minus_25: "Math_round (double_times (- (1 / 4)) 100) = - 25"
  and percent_92: "Math_round (double_times (23 / 25) 100) = 92"
  and fixed_70: "toFixed0 (double_times (7 / 10) 100) = 70"
  and fixed_95: "toFixed0 (double_times (19 / 20) 100) = 95"
  and fixed_150: "toFixed0 (double_times (3 / 2) 100) = 150"
  and fixed_92: "toFixed0 (double_times (23 / 25) 100) = 92"
  by code_simp+

lemmas percent_examples =
  percent_70 percent_95 percent_50 percent_150 percent_minus_25 percent_92
  fixed_70 fixed_95 fixed_150 fixed_92

lemma displayScore_scored [simp]:
  "displayScore (scored sim comb) = or_number (or_else comb sim) 0"
  by (simp add: displayScore_def scored_def)

subsection \<open>Order of the displayed sources\<close>

text \<open>
  C1, as stated, fails: neither front end sorts. With a source of combined score 0.7
  followed by one of similarity score 0.95, the cards show 70 and then 95.
\<close>

theorem C1_display_order_counterexample:
  "map card_match (MessageBubble_sources (Some [scored None (Some (7 / 10)), scored (Some (19 / 20)) None])) = [70, 95]
   \<and> map item_score (messageSources (Some [scored None (Some (7 / 10)), scored (Some (19 / 20)) None])) = [70, 95]
   \<and> \<not> non_increasing_score
         (map card_source
            (MessageBubble_sources (Some [scored None (Some (7 / 10)), scored (Some (19 / 20)) None])))"
  by (simp add: MessageBubble_sources_def messageSources_def SourceCard_def sourceItem_def
        matchScore_def non_increasing_score_def or_else_def percent_examples)

text \<open>
  C1, amended: the sources of an assistant turn are displayed in exactly the order in
  which the response carried them and numbered from 1, in both front ends; no sorting by
  display score takes place, so every pair of sources, with equal scores or not, keeps
  its relative order.
\<close>

theorem C1_display_order_is_backend_order:
  "map card_source (MessageBubble_sources (Some ss)) = ss
   \<and> map card_label (MessageBubble_sources (Some ss)) = [1 ..< 1 + length ss]
   \<and> map item_source (messageSources (Some ss)) = ss
   \<and> map item_label (messageSources (Some ss)) = [1 ..< 1 + length ss]"
  by (cases ss)
     (simp_all add: MessageBubble_sources_def messageSources_def map_index_sources
        map_index_items map_index_labels map_index_item_labels del: map_index.simps)

subsection \<open>Fallback order of the score fields\<close>

text \<open>
  C2, as stated, fails at a combined score that is present and equal to 0: \<^verbatim>\<open>||\<close>
  treats 0 as absent, so the similarity score is displayed.
\<close>

theorem C2_zero_combined_counterexample:
  "combined_score (scored (Some (1 / 2)) (Some 0)) = Some 0
   \<and> displayScore (scored (Some (1 / 2)) (Some 0)) = 1 / 2
   \<and> matchScore (scored (Some (1 / 2)) (Some 0)) = 50"
  by (simp add: matchScore_def or_else_def percent_examples) (simp add: scored_def)

text \<open>
  C2, amended: the display score is the combined score when that is present and not
  zero; otherwise the similarity score when that is present; otherwise 0. A present
  combined score other than 0 takes precedence over a present similarity score.
\<close>

theorem C2_display_score_fallback:
  "(combined_score s = Some c \<and> c \<noteq> 0 \<longrightarrow> displayScore s = c)
   \<and> ((combined_score s = None \<or> combined_score s = Some 0) \<and> similarity_score s = Some m
        \<longrightarrow> displayScore s = m)
   \<and> ((combined_score s = None \<or> combined_score s = Some 0) \<and> similarity_score s = None
        \<longrightarrow> displayScore s = 0)"
  by (auto simp: displayScore_cases)

theorem C2_display_score_fallback_witness:
  "displayScore (scored (Some (19 / 20)) (Some (7 / 10))) = 7 / 10
   \<and> displayScore (scored (Some (19 / 20)) None) = 19 / 20
   \<and> displayScore (scored None (Some 0)) = 0"
  using C2_display_score_fallback [of "scored (Some (19 / 20)) (Some (7 / 10))" "7 / 10" "19 / 20"]
    C2_display_score_fallback [of "scored (Some (19 / 20)) None" 0 "19 / 20"]
    C2_display_score_fallback [of "scored None (Some 0)" 0 0]
  by (simp add: scored_def)

subsection \<open>Range of the displayed score\<close>

text \<open>
  C3, as stated, fails: no clamping takes place. A combined score of 1.5 is displayed as
  150 percent, a similarity score of -0.25 as -25 percent.
\<close>

theorem C3_no_clamping_counterexample:
  "\<not> displayScore (scored None (Some (3 / 2))) \<le> 1
   \<and> matchScore (scored None (Some (3 / 2))) = 150
   \<and> item_score (sourceItem (scored None (Some (3 / 2))) 0) = 150
   \<and> \<not> 0 \<le> displayScore (scored (Some (- (1 / 4))) None)
   \<and> matchScore (scored (Some (- (1 / 4))) None) = - 25"
  by (simp add: matchScore_def sourceItem_def or_else_def percent_examples)

lemma displayScore_range:
  assumes "\<forall>r \<in> set_option (similarity_score s). lo \<le> r \<and> r \<le> hi"
    and "\<forall>r \<in> set_option (combined_score s). lo \<le> r \<and> r \<le> hi"
    and "lo \<le> 0" and "0 \<le> hi"
  shows "lo \<le> displayScore s \<and> displayScore s \<le> hi"
  using assms
  by (cases "combined_score s"; cases "similarity_score s") (simp_all add: displayScore_cases)

text \<open>
  C3, amended: the display score is always one of the raw values of the source (its
  combined score, its similarity score) or 0, never a clamped value. So for every source
  whose present score fields lie in \<open>[0,1]\<close> the display score lies in \<open>[0,1]\<close> and
  the displayed percentage in \<open>[0,100]\<close>; a source with out-of-range scores is not
  rejected: it gets its card like any other, showing the out-of-range percentage.
\<close>

theorem C3_score_range:
  "displayScore s \<in> set_option (combined_score s) \<union> set_option (similarity_score s) \<union> {0}
   \<and> length (MessageBubble_sources (Some ss)) = length ss
   \<and> length (messageSources (Some ss)) = length ss
   \<and> ((\<forall>r \<in> set_option (similarity_score s). 0 \<le> r \<and> r \<le> 1)
        \<and> (\<forall>r \<in> set_option (combined_score s). 0 \<le> r \<and> r \<le> 1)
      \<longrightarrow> 0 \<le> displayScore s \<and> displayScore s \<le> 1
          \<and> 0 \<le> matchScore s \<and> matchScore s \<le> 100
          \<and> 0 \<le> toFixed0 (displayScore s * 100) \<and> toFixed0 (displayScore s * 100) \<le> 100
          \<and> 0 \<le> item_score (sourceItem s i) \<and> item_score (sourceItem s i) \<le> 100)"
proof (intro conjI impI)
  show "displayScore s \<in> set_option (combined_score s) \<union> set_option (similarity_score s) \<union> {0}"
    by (cases "combined_score s"; cases "similarity_score s") (simp_all add: displayScore_cases)
  show "length (MessageBubble_sources (Some ss)) = length ss"
    by (simp add: MessageBubble_sources_def map_index_length)
  show "length (messageSources (Some ss)) = length ss"
    by (simp add: messageSources_def map_index_length)
next
  assume "(\<forall>r \<in> set_option (similarity_score s). 0 \<le> r \<and> r \<le> 1)
        \<and> (\<forall>r \<in> set_option (combined_score s). 0 \<le> r \<and> r \<le> 1)"
  then have range: "0 \<le> displayScore s \<and> displayScore s \<le> 1"
    using displayScore_range [of s 0 1] by simp
  then show "0 \<le> displayScore s" and "displayScore s \<le> 1" by simp_all
  from range have lo: "of_int 0 \<le> displayScore s * 100" and hi: "displayScore s * 100 \<le> of_int 100"
    by simp_all
  from range double_times_100_range [of "displayScore s"]
  have plo: "of_int 0 \<le> double_times (displayScore s) 100"
    and phi: "double_times (displayScore s) 100 \<le> of_int 100"
    by simp_all
  from Math_round_mono [OF plo] show m0: "0 \<le> matchScore s"
    by (simp only: matchScore_def Math_round_of_int)
  from Math_round_mono [OF phi] show m100: "matchScore s \<le> 100"
    by (simp only: matchScore_def Math_round_of_int)
  from Math_round_mono [OF lo] have e0: "0 \<le> Math_round (displayScore s * 100)"
    by (simp only: Math_round_of_int)
  from Math_round_mono [OF hi] have e100: "Math_round (displayScore s * 100) \<le> 100"
    by (simp only: Math_round_of_int)
  from lo have "toFixed0 (displayScore s * 100) = Math_round (displayScore s * 100)"
    by (simp add: toFixed0_nonneg)
  with e0 e100
  show "0 \<le> toFixed0 (displayScore s * 100)" and "toFixed0 (displayScore s * 100) \<le> 100"
    by simp_all
  from plo have "item_score (sourceItem s i) = matchScore s"
    by (simp add: sourceItem_def toFixed0_nonneg matchScore_def)
  with m0 m100 show "0 \<le> item_score (sourceItem s i)" and "item_score (sourceItem s i) \<le> 100"
    by simp_all
qed

theorem C3_score_range_witness:
  "displayScore (scored (Some (19 / 20)) (Some (7 / 10))) = 7 / 10
   \<and> 0 \<le> matchScore (scored (Some (19 / 20)) (Some (7 / 10)))
   \<and> matchScore (scored (Some (19 / 20)) (Some (7 / 10))) \<le> 100
   \<and> length (MessageBubble_sources (Some [scored None (Some (3 / 2))])) = 1"
  using C3_score_range [of "scored (Some (19 / 20)) (Some (7 / 10))" "[scored None (Some (3 / 2))]" 0]
  by (simp add: scored_def displayScore_def or_else_def)

subsection \<open>Percentage and badge\<close>





section \<open>Properties of the input text\<close>

lemma trim_blank:
  assumes "\<forall>c \<in> set s. isWhiteSpace c" shows "trim s = []"
proof -
  from assms have "dropWhile isWhiteSpace s = []" by (simp add: dropWhile_eq_Nil_conv)
  then show ?thesis unfolding trim_def by (simp only: rev.simps dropWhile.simps)
qed

lemma trim_empty_iff: "trim s = [] \<longleftrightarrow> (\<forall>c \<in> set s. isWhiteSpace c)"
proof
  assume "trim s = []"
  then have "\<forall>c \<in> set (dropWhile isWhiteSpace s). isWhiteSpace c"
    by (simp add: trim_def dropWhile_eq_Nil_conv)
  then have "dropWhile isWhiteSpace s = []"
    by (metis hd_dropWhile hd_in_set)
  then show "\<forall>c \<in> set s. isWhiteSpace c" by (simp add: dropWhile_eq_Nil_conv)
next
  assume "\<forall>c \<in> set s. isWhiteSpace c"
  then show "trim s = []" by (rule trim_blank)
qed

lemma trim_decomposition:
  "s = takeWhile isWhiteSpace s @ trim s @ rev (takeWhile isWhiteSpace (rev (dropWhile isWhiteSpace s)))"
proof -
  let ?d = "dropWhile isWhiteSpace s"
  have "rev (rev ?d) = rev (takeWhile isWhiteSpace (rev ?d) @ dropWhile isWhiteSpace (rev ?d))"
    by (simp only: takeWhile_dropWhile_id)
  then have "?d = trim s @ rev (takeWhile isWhiteSpace (rev ?d))"
    by (simp only: rev_rev_ident rev_append trim_def)
  moreover have "s = takeWhile isWhiteSpace s @ ?d" by simp
  ultimately show ?thesis by metis
qed

lemma trim_ends:
  assumes "trim s \<noteq> []"
  shows "\<not> isWhiteSpace (hd (trim s))" and "\<not> isWhiteSpace (last (trim s))"
proof -
  let ?d = "dropWhile isWhiteSpace s"
  let ?e = "dropWhile isWhiteSpace (rev ?d)"
  from assms have e: "?e \<noteq> []" by (simp add: trim_def)
  then have "\<not> isWhiteSpace (hd ?e)" by (rule hd_dropWhile)
  with e show "\<not> isWhiteSpace (last (trim s))"
    by (simp add: trim_def last_rev)
  have d: "?d \<noteq> []"
  proof
    assume "?d = []"
    then have "?e = []" by (simp only: rev.simps dropWhile.simps)
    with e show False by contradiction
  qed
  then have hd_d: "\<not> isWhiteSpace (hd ?d)" by (rule hd_dropWhile)
  have "hd (trim s) = last ?e" using e by (simp add: trim_def hd_rev)
  also have "\<dots> = last (rev ?d)"
    using e by (metis last_appendR takeWhile_dropWhile_id)
  also have "\<dots> = hd ?d" using d by (simp add: last_rev)
  finally show "\<not> isWhiteSpace (hd (trim s))" using hd_d by simp
qed


lemma trim_removes_outer_whitespace:
  "\<exists>pre post. s = pre @ trim s @ post
     \<and> (\<forall>c \<in> set pre. isWhiteSpace c) \<and> (\<forall>c \<in> set post. isWhiteSpace c)"
proof (intro exI conjI)
  show "s = takeWhile isWhiteSpace s @ trim s
            @ rev (takeWhile isWhiteSpace (rev (dropWhile isWhiteSpace s)))"
    by (rule trim_decomposition)
  show "\<forall>c \<in> set (takeWhile isWhiteSpace s). isWhiteSpace c"
    by (auto dest: set_takeWhileD)
  show "\<forall>c \<in> set (rev (takeWhile isWhiteSpace (rev (dropWhile isWhiteSpace s)))). isWhiteSpace c"
    by (auto dest: set_takeWhileD)
qed

section \<open>Submitting a query\<close>

text \<open>
  C6: when the input is empty or holds only white space, sending does nothing at all in
  either front end: the whole state is unchanged, so no message is appended, no request
  is made and nothing is logged or shown.
\<close>

theorem C6_blank_query_is_ignored:
  assumes "\<forall>c \<in> set (chatInput st). isWhiteSpace c"
    and "\<forall>c \<in> set (input ci). isWhiteSpace c"
  shows "sendMessage st = st \<and> app_step Send st = st
    \<and> handleSubmit ci = ci \<and> chat_step Submit ci = ci"
  using assms by (simp add: sendMessage_def handleSubmit_def trim_blank)

theorem C6_blank_query_is_ignored_witness:
  "sendMessage (loaded_page\<lparr>chatInput := [0x20, 0x09, 0xA0, 0x0A]\<rparr>)
     = loaded_page\<lparr>chatInput := [0x20, 0x09, 0xA0, 0x0A]\<rparr>
   \<and> handleSubmit ((mounted (js ''session_1_abc''))\<lparr>input := [0x20, 0x20]\<rparr>)
     = (mounted (js ''session_1_abc''))\<lparr>input := [0x20, 0x20]\<rparr>"
  using C6_blank_query_is_ignored
    [of "loaded_page\<lparr>chatInput := [0x20, 0x09, 0xA0, 0x0A]\<rparr>"
        "(mounted (js ''session_1_abc''))\<lparr>input := [0x20, 0x20]\<rparr>"]
  by (simp add: isWhiteSpace_def)

lemma trim_example: "trim (js ''  hi there '') = js ''hi there''"
  by (simp add: trim_def js_def isWhiteSpace_def)

text \<open>
  C10: when the input bar submits (the input is not blank and, in the React front end,
  no request is pending), the content of the appended user message and the query of the
  request made are both the trimmed input: the input without its leading and trailing
  white space, which neither begins nor ends with white space.
\<close>

theorem C10_query_is_trimmed_input:
  assumes "trim (chatInput st) \<noteq> []"
    and "trim (input ci) \<noteq> []" and "\<not> isPending ci"
  shows "chatMessages (sendMessage st)
           = remove1 WelcomeMessage (chatMessages st)
             @ [Message (Some (trim (chatInput st))) User [], TypingIndicator]
    \<and> fetched (sendMessage st)
           = fetched st @
             [\<lparr>req_query = trim (chatInput st), req_session_id = sessionId st,
               req_payer_name = or_absent (payerFilter st),
               req_rule_type = or_absent (ruleTypeFilter st), req_include_sources = True\<rparr>]
    \<and> messages (handleSubmit ci)
           = messages ci @
             [\<lparr>msg_id = UserId, msg_content = Some (trim (input ci)),
               msg_type = UserMessage, msg_sources = None\<rparr>]
    \<and> posted (handleSubmit ci) = posted ci @ [mutationFn (trim (input ci)) ci]
    \<and> req_query (mutationFn (trim (input ci)) ci) = trim (input ci)
    \<and> \<not> isWhiteSpace (hd (trim (chatInput st))) \<and> \<not> isWhiteSpace (last (trim (chatInput st)))
    \<and> \<not> isWhiteSpace (hd (trim (input ci))) \<and> \<not> isWhiteSpace (last (trim (input ci)))
    \<and> (\<exists>pre post. chatInput st = pre @ trim (chatInput st) @ post
          \<and> (\<forall>c \<in> set pre. isWhiteSpace c) \<and> (\<forall>c \<in> set post. isWhiteSpace c))
    \<and> (\<exists>pre post. input ci = pre @ trim (input ci) @ post
          \<and> (\<forall>c \<in> set pre. isWhiteSpace c) \<and> (\<forall>c \<in> set post. isWhiteSpace c))"
  using assms trim_ends [of "chatInput st"] trim_ends [of "input ci"]
    trim_removes_outer_whitespace [of "chatInput st"] trim_removes_outer_whitespace [of "input ci"]
  by (simp add: sendMessage_def handleSubmit_def handleSend_def mutate_def mutationFn_def
        addMessage_def showTypingIndicator_def messageSources_def Let_def)

theorem C10_query_is_trimmed_input_witness:
  "chatMessages (sendMessage (loaded_page\<lparr>chatInput := js ''  hi there ''\<rparr>))
     = [Message (Some (js ''hi there'')) User [], TypingIndicator]
   \<and> map req_query (fetched (sendMessage (loaded_page\<lparr>chatInput := js ''  hi there ''\<rparr>)))
     = [js ''hi there'']
   \<and> map msg_content (messages (handleSubmit ((mounted (js ''session_1_abc''))\<lparr>input := js ''  hi there ''\<rparr>)))
     = [Some (js ''hi there'')]
   \<and> map req_query (posted (handleSubmit ((mounted (js ''session_1_abc''))\<lparr>input := js ''  hi there ''\<rparr>)))
     = [js ''hi there'']"
  using C10_query_is_trimmed_input
    [of "loaded_page\<lparr>chatInput := js ''  hi there ''\<rparr>"
        "(mounted (js ''session_1_abc''))\<lparr>input := js ''  hi there ''\<rparr>"]
  by (simp add: trim_example) (simp add: loaded_page_def mounted_def mutationFn_def js_def)

section \<open>Session id\<close>

text \<open>
  The plain front end adopts a session id of the answer that is present and not empty,
  and keeps its own otherwise. The React front end never changes its session id.
\<close>

lemma sessionId_adopted:
  "sessionId (sendMessage_resumed (HttpResponse status (JsonValue data)) st)
     = (case session_id data of
          Some sid \<Rightarrow> if sid \<noteq> [] then Some sid else sessionId st
        | None \<Rightarrow> sessionId st)"
  by (simp add: Let_def addMessage_def removeTypingIndicator_def split: option.split)

lemma chat_sessionId_step: "chat_sessionId (chat_step e ci) = chat_sessionId ci"
  by (cases e)
     (simp_all add: handleSubmit_def handleSend_def mutate_def settle_def onSuccess_def
        onError_def Let_def split: settled.split)

lemma chat_sessionId_run: "chat_sessionId (chat_run es ci) = chat_sessionId ci"
  by (induction es arbitrary: ci) (simp_all add: chat_sessionId_step)

text \<open>
  C5 fails in the React front end: after a successful answer carrying the session id
  \<^verbatim>\<open>s1\<close> the component still holds the id it generated at its first render, and the
  next request carries that id again.
\<close>

theorem C5_react_ignores_server_session_id:
  "session_id (answer (js ''ok'') (Some (js ''s1''))) = Some (js ''s1'')
   \<and> chat_sessionId
        (chat_run [Change (js ''hi''), Submit, Settle 0 (Fulfilled (answer (js ''ok'') (Some (js ''s1''))))]
           (mounted (js ''session_1_abc'')))
       = js ''session_1_abc''
   \<and> js ''session_1_abc'' \<noteq> js ''s1''
   \<and> map req_session_id
        (posted
          (chat_run [Change (js ''hi''), Submit, Settle 0 (Fulfilled (answer (js ''ok'') (Some (js ''s1'')))),
                     Change (js ''more''), Submit]
             (mounted (js ''session_1_abc''))))
       = [Some (js ''session_1_abc''), Some (js ''session_1_abc'')]"
  by (simp add: answer_def mounted_def handleSubmit_def handleSend_def mutate_def mutationFn_def
        settle_def onSuccess_def trim_def js_def isWhiteSpace_def or_undefined_def)

section \<open>Failing queries\<close>

text \<open>
  When \<^verbatim>\<open>fetch\<close> or \<^verbatim>\<open>response.json()\<close> rejects, the plain front end logs the
  error, removes the typing indicator and appends the apology without sources; the
  React front end does the same when the request is rejected.
\<close>

lemma failed_fetch_apology:
  assumes "fetch_failed outcome"
  shows "sendMessage_resumed outcome st = sendMessage_catch st"
  using assms by (cases outcome rule: fetch_failed.cases) simp_all

lemma failed_fetch_messages:
  assumes "fetch_failed outcome"
  shows "chatMessages (sendMessage_resumed outcome st)
           = remove1 WelcomeMessage (remove1 TypingIndicator (chatMessages st))
             @ [Message (Some apology) Bot []]
         \<and> console (sendMessage_resumed outcome st) = console st @ [ErrorSendingMessage]"
  by (simp add: failed_fetch_apology [OF assms] sendMessage_catch_def addMessage_def
        removeTypingIndicator_def messageSources_def)

lemma react_rejected_apology:
  "in_flight ci = [r] \<Longrightarrow>
   settle 0 Rejected ci
     = ci\<lparr>in_flight := [], isPending := False,
          messages := messages ci @
            [\<lparr>msg_id = ErrorId, msg_content = Some apology, msg_type = AssistantMessage,
              msg_sources = None\<rparr>],
          chat_console := chat_console ci @ [ChatError]\<rparr>"
  by (simp add: settle_def onError_def)

text \<open>
  C7 fails in the plain front end for an answer with a non-2xx status: \<^verbatim>\<open>fetch\<close>
  resolves, the status is not looked at, and the JSON body of the error is rendered as if
  it were an answer. After HTTP 500 with an error body the bot message has no content,
  the apology is absent and nothing is logged.
\<close>

theorem C7_http_error_gets_no_apology:
  "chatMessages
     (app_run [Edit (js ''hi''), Send, Answer 0 (HttpResponse 500 (JsonValue error_body))] loaded_page)
     = [Message (Some (js ''hi'')) User [], Message None Bot []]
   \<and> console
     (app_run [Edit (js ''hi''), Send, Answer 0 (HttpResponse 500 (JsonValue error_body))] loaded_page)
     = []
   \<and> Message (Some apology) Bot [] \<notin> set (chatMessages
     (app_run [Edit (js ''hi''), Send, Answer 0 (HttpResponse 500 (JsonValue error_body))] loaded_page))"
  by (simp add: error_body_def loaded_page_def sendMessage_def addMessage_def
        showTypingIndicator_def removeTypingIndicator_def messageSources_def or_absent_def
        trim_def js_def isWhiteSpace_def Let_def)

section \<open>Dashboard polls\<close>

text \<open>
  An answer with an error status and a JSON body is not rejected, and the status is not
  looked at: \<^verbatim>\<open>loadStats\<close> then fills the cards from the fields of the body, which are
  missing, and logs nothing.
\<close>

lemma loadStats_error_status:
  "loadStats (HttpResponse 500 (JsonValue \<lparr>total_payers = None, total_rules = None, unread_alerts = None\<rparr>)) st
     = st\<lparr>statsGrid := StatCards None None None\<rparr>"
  by simp

text \<open>
  C8, as stated, fails for the alerts: when their fetch fails, \<^verbatim>\<open>loadAlerts\<close> replaces
  the content of the widget by the text \<^verbatim>\<open>Error loading alerts\<close>.
\<close>

theorem C8_alerts_error_counterexample:
  "alertsList (poll StatsFirst NetworkError NetworkError (loaded_page\<lparr>alertsList := NoNewAlerts\<rparr>))
     = ErrorLoadingAlertsText
   \<and> alertsList (poll AlertsFirst NetworkError NetworkError (loaded_page\<lparr>alertsList := NoNewAlerts\<rparr>))
     = ErrorLoadingAlertsText
   \<and> alertsList (loaded_page\<lparr>alertsList := NoNewAlerts\<rparr>) = NoNewAlerts"
  by (simp add: poll_def loadAlerts_catch_def)

text \<open>
  C8, amended: when a fetch of a poll is rejected (no answer arrives, or the body is not
  JSON), nothing propagates and the failure is logged. For the stats, the widget keeps
  what it displayed and nothing else changes. For the alerts, the widget shows
  \<^verbatim>\<open>Error loading alerts\<close> in place of its previous content and nothing else changes.
  When both fetches of a poll are rejected, in whichever order, the stats are as before,
  the alerts widget shows the error text, and the two entries are logged in the order
  in which the fetches settled.
\<close>

theorem C8_failed_poll:
  assumes "fetch_failed stats_outcome" and "fetch_failed alerts_outcome"
  shows "loadStats stats_outcome st = st\<lparr>console := console st @ [ErrorLoadingStats]\<rparr>
    \<and> statsGrid (loadStats stats_outcome st) = statsGrid st
    \<and> loadAlerts alerts_outcome st
        = st\<lparr>console := console st @ [ErrorLoadingAlerts], alertsList := ErrorLoadingAlertsText\<rparr>
    \<and> poll StatsFirst stats_outcome alerts_outcome st
        = st\<lparr>console := console st @ [ErrorLoadingStats, ErrorLoadingAlerts],
             alertsList := ErrorLoadingAlertsText\<rparr>
    \<and> poll AlertsFirst stats_outcome alerts_outcome st
        = st\<lparr>console := console st @ [ErrorLoadingAlerts, ErrorLoadingStats],
             alertsList := ErrorLoadingAlertsText\<rparr>
    \<and> statsGrid (poll first stats_outcome alerts_outcome st) = statsGrid st
    \<and> alertsList (poll first stats_outcome alerts_outcome st) = ErrorLoadingAlertsText"
proof -
  from assms(1) have s: "\<And>st'. loadStats stats_outcome st' = st'\<lparr>console := console st' @ [ErrorLoadingStats]\<rparr>"
    by (cases stats_outcome rule: fetch_failed.cases) simp_all
  from assms(2) have a: "\<And>st'. loadAlerts alerts_outcome st' = loadAlerts_catch st'"
    by (cases alerts_outcome rule: fetch_failed.cases) simp_all
  show ?thesis
    by (cases first) (simp_all add: s a poll_def loadAlerts_catch_def)
qed

theorem C8_failed_poll_witness:
  "poll StatsFirst NetworkError (HttpResponse 200 NotJson)
       (loaded_page\<lparr>statsGrid := StatCards (Some 5) (Some 40) (Some 2)\<rparr>)
     = loaded_page\<lparr>statsGrid := StatCards (Some 5) (Some 40) (Some 2),
         console := [ErrorLoadingStats, ErrorLoadingAlerts], alertsList := ErrorLoadingAlertsText\<rparr>
   \<and> poll AlertsFirst NetworkError (HttpResponse 200 NotJson)
       (loaded_page\<lparr>statsGrid := StatCards (Some 5) (Some 40) (Some 2)\<rparr>)
     = loaded_page\<lparr>statsGrid := StatCards (Some 5) (Some 40) (Some 2),
         console := [ErrorLoadingAlerts, ErrorLoadingStats], alertsList := ErrorLoadingAlertsText\<rparr>"
  using C8_failed_poll [of NetworkError "HttpResponse 200 NotJson"
      "loaded_page\<lparr>statsGrid := StatCards (Some 5) (Some 40) (Some 2)\<rparr>" StatsFirst]
  by (simp add: loaded_page_def)

section \<open>Requests in flight\<close>

text \<open>
  In the React front end every reachable state has at most one request in flight and
  its turns alternate, the user's first: the input bar ignores a submit while the
  mutation is pending, and the example buttons exist only before the first message.
\<close>

lemma alternating_snoc_user:
  "alternating ts \<Longrightarrow> even (length ts) \<Longrightarrow> alternating (ts @ [UserMessage])"
  by (induction ts rule: alternating.induct) simp_all

lemma alternating_snoc_assistant:
  "alternating ts \<Longrightarrow> odd (length ts) \<Longrightarrow> alternating (ts @ [AssistantMessage])"
  by (induction ts rule: alternating.induct) simp_all

lemma single_flight_handleSend:
  assumes "single_flight ci" and "\<not> isPending ci"
  shows "single_flight (handleSend text ci)"
proof -
  from assms have none: "in_flight ci = []" and len_even: "even (length (messages ci))"
    and alt_msgs: "alternating (map msg_type (messages ci))"
    by (auto simp: single_flight_def)
  from alt_msgs len_even have "alternating (map msg_type (messages ci) @ [UserMessage])"
    by (simp add: alternating_snoc_user)
  with none len_even show ?thesis
    by (simp add: single_flight_def handleSend_def mutate_def)
qed

lemma single_flight_settle:
  assumes "single_flight ci"
  shows "single_flight (settle k outcome ci)"
proof (cases "k < length (in_flight ci)")
  case False
  with assms show ?thesis by (simp add: settle_def)
next
  case True
  with assms obtain r where r: "in_flight ci = [r]" and k: "k = 0"
    by (cases "in_flight ci") (auto simp: single_flight_def)
  with assms have len_odd: "odd (length (messages ci))"
    by (simp add: single_flight_def)
  from assms have "alternating (map msg_type (messages ci))"
    by (simp add: single_flight_def)
  with len_odd have "alternating (map msg_type (messages ci) @ [AssistantMessage])"
    by (simp add: alternating_snoc_assistant)
  with r k len_odd show ?thesis
    by (cases outcome) (simp_all add: single_flight_def settle_def onError_def onSuccess_def)
qed

lemma single_flight_step:
  assumes "single_flight ci"
  shows "single_flight (chat_step e ci)"
proof (cases e)
  case (Change t)
  with assms show ?thesis by (simp add: single_flight_def)
next
  case Submit
  show ?thesis
  proof (cases "trim (input ci) \<noteq> [] \<and> \<not> isPending ci")
    case True
    then have "single_flight (handleSend (trim (input ci)) ci)"
      using assms by (simp add: single_flight_handleSend)
    then have "single_flight ((handleSend (trim (input ci)) ci)\<lparr>input := []\<rparr>)"
      by (simp add: single_flight_def)
    with True Submit show ?thesis by (simp add: handleSubmit_def)
  next
    case False
    with assms Submit show ?thesis by (auto simp: handleSubmit_def)
  qed
next
  case (Example i)
  show ?thesis
  proof (cases "length (messages ci) = 0 \<and> i < length examples")
    case True
    with assms have "\<not> isPending ci" by (simp add: single_flight_def)
    with assms True Example show ?thesis by (simp add: single_flight_handleSend)
  next
    case False
    with assms Example show ?thesis by auto
  qed
next
  case (Settle k outcome)
  with assms show ?thesis by (simp add: single_flight_settle)
qed

lemma single_flight_run:
  "single_flight ci \<Longrightarrow> single_flight (chat_run es ci)"
  by (induction es arbitrary: ci) (simp_all add: single_flight_step)

lemma single_flight_mounted: "single_flight (mounted sid)"
  by (simp add: single_flight_def mounted_def)

lemma react_single_flight:
  "length (in_flight (chat_run es (mounted sid))) \<le> 1
   \<and> alternating (map msg_type (messages (chat_run es (mounted sid))))"
  using single_flight_run [OF single_flight_mounted, of es sid]
  by (simp add: single_flight_def)

lemma react_busy_submit_ignored: "isPending ci \<Longrightarrow> handleSubmit ci = ci"
  by (simp add: handleSubmit_def)

text \<open>
  C9 fails in the plain front end: \<^verbatim>\<open>sendMessage\<close> has no guard, so a second send
  while the first is awaited puts two requests in flight; when the second is answered
  first, the answer to the first query comes after both turns of the second.
\<close>

theorem C9_two_requests_in_flight:
  "length (awaiting (app_run [Edit (js ''a''), Send, Edit (js ''b''), Send] loaded_page)) = 2
   \<and> chatMessages
       (app_run [Edit (js ''a''), Send, Edit (js ''b''), Send,
                 Answer 1 (HttpResponse 200 (JsonValue (answer (js ''B'') None))),
                 Answer 0 (HttpResponse 200 (JsonValue (answer (js ''A'') None)))] loaded_page)
     = [Message (Some (js ''a'')) User [], Message (Some (js ''b'')) User [],
        Message (Some (js ''B'')) Bot [], Message (Some (js ''A'')) Bot []]"
  by (simp add: answer_def loaded_page_def sendMessage_def addMessage_def
        showTypingIndicator_def removeTypingIndicator_def messageSources_def or_absent_def
        trim_def js_def isWhiteSpace_def Let_def)


end
